theory Spec2Isabelle
  imports Complex_Main
begin

section \<open>JavaScript numbers\<close>

text \<open>
  Every coordinate, velocity and acceleration of the simulation is a JavaScript number.
  The model keeps the four kinds of value that IEEE 754 arithmetic distinguishes: a finite
  value, the two infinities and NaN. Finite values are exact reals: rounding, overflow and
  underflow of the 64-bit format are not represented. Zero carries no sign; wherever the
  engine divides by a zero, that zero is a product of \<^verbatim>\<open>Math.sqrt\<close> results and positive
  constants, so division by zero follows the rules for a positive zero.
\<close>

datatype jsnum = Fin real | PInf | NInf | NaN


instantiation jsnum :: "{plus, minus, uminus, times, inverse, abs, ord}"
begin

fun uminus_jsnum :: "jsnum \<Rightarrow> jsnum" where
  "uminus_jsnum (Fin a) = Fin (- a)"
| "uminus_jsnum PInf = NInf"
| "uminus_jsnum NInf = PInf"
| "uminus_jsnum NaN = NaN"

fun plus_jsnum :: "jsnum \<Rightarrow> jsnum \<Rightarrow> jsnum" where
  "plus_jsnum (Fin a) (Fin b) = Fin (a + b)"
| "plus_jsnum (Fin a) PInf = PInf"
| "plus_jsnum (Fin a) NInf = NInf"
| "plus_jsnum PInf (Fin b) = PInf"
| "plus_jsnum PInf PInf = PInf"
| "plus_jsnum PInf NInf = NaN"
| "plus_jsnum NInf (Fin b) = NInf"
| "plus_jsnum NInf PInf = NaN"
| "plus_jsnum NInf NInf = NInf"
| "plus_jsnum NaN v = NaN"
| "plus_jsnum u NaN = NaN"

definition minus_jsnum :: "jsnum \<Rightarrow> jsnum \<Rightarrow> jsnum" where
  "minus_jsnum u v = u + (- v)"

fun times_jsnum :: "jsnum \<Rightarrow> jsnum \<Rightarrow> jsnum" where
  "times_jsnum (Fin a) (Fin b) = Fin (a * b)"
| "times_jsnum (Fin a) PInf = (if a = 0 then NaN else if 0 < a then PInf else NInf)"
| "times_jsnum (Fin a) NInf = (if a = 0 then NaN else if 0 < a then NInf else PInf)"
| "times_jsnum PInf (Fin b) = (if b = 0 then NaN else if 0 < b then PInf else NInf)"
| "times_jsnum NInf (Fin b) = (if b = 0 then NaN else if 0 < b then NInf else PInf)"
| "times_jsnum PInf PInf = PInf"
| "times_jsnum PInf NInf = NInf"
| "times_jsnum NInf PInf = NInf"
| "times_jsnum NInf NInf = PInf"
| "times_jsnum NaN v = NaN"
| "times_jsnum u NaN = NaN"

fun divide_jsnum :: "jsnum \<Rightarrow> jsnum \<Rightarrow> jsnum" where
  "divide_jsnum (Fin a) (Fin b) =
     (if b = 0 then (if a = 0 then NaN else if 0 < a then PInf else NInf)
      else Fin (a / b))"
| "divide_jsnum (Fin a) PInf = Fin 0"
| "divide_jsnum (Fin a) NInf = Fin 0"
| "divide_jsnum PInf (Fin b) = (if b < 0 then NInf else PInf)"
| "divide_jsnum NInf (Fin b) = (if b < 0 then PInf else NInf)"
| "divide_jsnum PInf PInf = NaN"
| "divide_jsnum PInf NInf = NaN"
| "divide_jsnum NInf PInf = NaN"
| "divide_jsnum NInf NInf = NaN"
| "divide_jsnum NaN v = NaN"
| "divide_jsnum u NaN = NaN"

definition inverse_jsnum :: "jsnum \<Rightarrow> jsnum" where
  "inverse_jsnum u = divide (Fin 1) u"

fun abs_jsnum :: "jsnum \<Rightarrow> jsnum" where
  "abs_jsnum (Fin a) = Fin \<bar>a\<bar>"
| "abs_jsnum PInf = PInf"
| "abs_jsnum NInf = PInf"
| "abs_jsnum NaN = NaN"

fun less_jsnum :: "jsnum \<Rightarrow> jsnum \<Rightarrow> bool" where
  "less_jsnum (Fin a) (Fin b) = (a < b)"
| "less_jsnum (Fin a) PInf = True"
| "less_jsnum (Fin a) NInf = False"
| "less_jsnum PInf v = False"
| "less_jsnum NInf (Fin b) = True"
| "less_jsnum NInf PInf = True"
| "less_jsnum NInf NInf = False"
| "less_jsnum NaN v = False"
| "less_jsnum u NaN = False"

definition less_eq_jsnum :: "jsnum \<Rightarrow> jsnum \<Rightarrow> bool" where
  "less_eq_jsnum u v = (u < v \<or> (u = v \<and> u \<noteq> NaN))"

instance ..

end

text \<open>\<^verbatim>\<open>Math.sqrt\<close>: NaN below zero, the identity on positive infinity.\<close>

fun Math_sqrt :: "jsnum \<Rightarrow> jsnum" where
  "Math_sqrt (Fin a) = (if a < 0 then NaN else Fin (sqrt a))"
| "Math_sqrt PInf = PInf"
| "Math_sqrt NInf = NaN"
| "Math_sqrt NaN = NaN"

section \<open>Constants\<close>

text \<open>The constant tables of the simulation, with the values the repository gives them.\<close>

definition G :: jsnum where
  "G = Fin (667430 / 10 ^ 16)"

definition TIME_SCALE :: jsnum where
  "TIME_SCALE = Fin (2 * 10 ^ 11)"

definition DISTANCE_SCALE :: jsnum where
  "DISTANCE_SCALE = Fin (10 ^ 9)"

definition MIN_DISTANCE :: jsnum where
  "MIN_DISTANCE = Fin 1"

definition MAX_FORCE_DISTANCE :: jsnum where
  "MAX_FORCE_DISTANCE = Fin 100"

definition SUN_MASS :: jsnum where
  "SUN_MASS = Fin 11100000"

definition SUN_RADIUS :: jsnum where
  "SUN_RADIUS = Fin 5"

definition PLANET_MASS :: jsnum where
  "PLANET_MASS = Fin 200000"

definition MAX_COUNT :: nat where
  "MAX_COUNT = 10"

definition TRAIL_LENGTH :: nat where
  "TRAIL_LENGTH = 10"

definition TRAIL_UPDATE_INTERVAL :: int where
  "TRAIL_UPDATE_INTERVAL = 35"

definition COLLISION_EFFECT_DURATION :: int where
  "COLLISION_EFFECT_DURATION = 105"

text \<open>
  The engine's constructor stores the square of the distance scale in a field that no
  method assigns again, so it is a constant of the model.
\<close>

definition distanceScaleSquared :: jsnum where
  "distanceScaleSquared = DISTANCE_SCALE * DISTANCE_SCALE"

section \<open>Planets\<close>

text \<open>
  A planet is modelled by its simulation state. The three.js objects it holds (scene, mesh,
  geometries, materials, trail line) belong to rendering and are not part of the model; the
  methods that only touch them (\<^verbatim>\<open>updateTrailGeometry\<close>, \<^verbatim>\<open>remove\<close>) leave the simulation state
  as it is, and what happens inside them is not modelled. In particular \<^verbatim>\<open>remove\<close> calls
  \<^verbatim>\<open>dispose\<close> on the trail geometry, which does not exist before \<^verbatim>\<open>initTrail\<close> has run; a
  failure there is a failure of the rendering side.

  The constructor does not create the trail: it schedules \<^verbatim>\<open>initTrail\<close> with a zero
  timeout, so \<^verbatim>\<open>trailPositions\<close> is undefined (\<open>None\<close>) until that callback has run. A trail
  is a JavaScript array: an entry is a position or undefined, a read past the end gives
  undefined and a write past the end extends the array.
\<close>

type_synonym point = "jsnum \<times> jsnum"

type_synonym trail = "point option list"

record planet =
  x :: jsnum
  y :: jsnum
  vx :: jsnum
  vy :: jsnum
  color :: nat
  trailPositions :: "trail option"

datatype error = TypeError

definition array_get :: "'a option list \<Rightarrow> nat \<Rightarrow> 'a option" where
  "array_get xs i = (if i < length xs then xs ! i else None)"

definition array_set :: "'a option list \<Rightarrow> nat \<Rightarrow> 'a option \<Rightarrow> 'a option list" where
  "array_set xs i v =
     (if i < length xs then xs[i := v] else xs @ replicate (i - length xs) None @ [v])"

definition Planet :: "jsnum \<Rightarrow> jsnum \<Rightarrow> jsnum \<Rightarrow> jsnum \<Rightarrow> nat \<Rightarrow> planet" where
  "Planet x0 y0 vx0 vy0 c =
     \<lparr>x = x0, y = y0, vx = vx0, vy = vy0, color = c, trailPositions = None\<rparr>"

definition initTrail :: "planet \<Rightarrow> planet" where
  "initTrail p = p\<lparr>trailPositions := Some (replicate TRAIL_LENGTH (Some (x p, y p)))\<rparr>"

text \<open>
  The shifting loop of \<^verbatim>\<open>Planet.update\<close>: \<open>shiftTrail j\<close> runs the iterations for the
  indices \<open>j\<close> down to 1, each copying entry \<open>j - 1\<close> into entry \<open>j\<close>.
\<close>

fun shiftTrail :: "nat \<Rightarrow> trail \<Rightarrow> trail" where
  "shiftTrail 0 tp = tp"
| "shiftTrail (Suc j) tp = shiftTrail j (array_set tp (Suc j) (array_get tp j))"

text \<open>
  \<^verbatim>\<open>Planet.update\<close>: semi-implicit Euler with the fixed time scale, then the trail when
  asked. Reading an index of an undefined \<^verbatim>\<open>trailPositions\<close> throws, after velocity and
  position have been assigned; the planet is returned together with what was thrown.
\<close>

definition Planet_update :: "planet \<Rightarrow> jsnum \<Rightarrow> jsnum \<Rightarrow> bool \<Rightarrow> planet \<times> error option" where
  "Planet_update p ax ay updateTrails =
     (let p1 = p\<lparr>vx := vx p + ax * TIME_SCALE\<rparr>;
          p2 = p1\<lparr>vy := vy p1 + ay * TIME_SCALE\<rparr>;
          p3 = p2\<lparr>x := x p2 + vx p2 * TIME_SCALE\<rparr>;
          p4 = p3\<lparr>y := y p3 + vy p3 * TIME_SCALE\<rparr>
      in if updateTrails then
           (case trailPositions p4 of
              None \<Rightarrow> (p4, Some TypeError)
            | Some tp \<Rightarrow>
                (p4\<lparr>trailPositions :=
                      Some (array_set (shiftTrail (TRAIL_LENGTH - 1) tp) 0 (Some (x p4, y p4)))\<rparr>,
                 None))
         else (p4, None))"

definition isOutOfBounds :: "planet \<Rightarrow> jsnum \<Rightarrow> jsnum \<Rightarrow> bool" where
  "isOutOfBounds p maxX maxY = (maxX < \<bar>x p\<bar> \<or> maxY < \<bar>y p\<bar>)"

definition isCollidedWithSun :: "planet \<Rightarrow> bool" where
  "isCollidedWithSun p =
     (let distanceSquared = x p * x p + y p * y p
      in distanceSquared < SUN_RADIUS * SUN_RADIUS)"

section \<open>Gravity\<close>

text \<open>
  The acceleration that \<^verbatim>\<open>calculateSunGravity\<close> computes for one planet, and the method
  itself, which adds it to the planet's slots of the two accumulator arrays.
\<close>

definition sunAccel :: "planet \<Rightarrow> jsnum \<times> jsnum" where
  "sunAccel p =
     (let dx = - x p;
          dy = - y p;
          r2 = dx * dx + dy * dy;
          r = Math_sqrt r2;
          force = G * PLANET_MASS * SUN_MASS / (r * r * distanceScaleSquared);
          accelX = force * dx / (r * PLANET_MASS);
          accelY = force * dy / (r * PLANET_MASS)
      in (accelX, accelY))"

definition calculateSunGravity ::
  "planet list \<Rightarrow> nat \<Rightarrow> jsnum list \<times> jsnum list \<Rightarrow> jsnum list \<times> jsnum list" where
  "calculateSunGravity ps planetIndex acc =
     (let (accelX, accelY) = sunAccel (ps ! planetIndex)
      in ((fst acc)[planetIndex := fst acc ! planetIndex + accelX],
          (snd acc)[planetIndex := snd acc ! planetIndex + accelY]))"

text \<open>
  One iteration of the inner loop of \<^verbatim>\<open>calculatePlanetGravity\<close>, in the source's steps:
  the squared distance of the pair, the cutoff test, the floor, the force and the
  acceleration. \<open>pairAccel\<close> is \<open>None\<close> when the iteration ends at \<^verbatim>\<open>continue\<close>.
\<close>

definition pairR2 :: "planet \<Rightarrow> planet \<Rightarrow> jsnum" where
  "pairR2 p q =
     (let dx = x q - x p;
          dy = y q - y p
      in dx * dx + dy * dy)"

definition maxDistanceSquared :: jsnum where
  "maxDistanceSquared = MAX_FORCE_DISTANCE * MAX_FORCE_DISTANCE"

definition minDistanceSquared :: jsnum where
  "minDistanceSquared = MIN_DISTANCE * MIN_DISTANCE"

definition effectiveR2 :: "jsnum \<Rightarrow> jsnum" where
  "effectiveR2 r2 = (if r2 < minDistanceSquared then minDistanceSquared else r2)"

definition pairForce :: "jsnum \<Rightarrow> jsnum" where
  "pairForce effR2 =
     (let r = Math_sqrt effR2
      in G * PLANET_MASS * PLANET_MASS / (r * r * distanceScaleSquared))"

definition pairAccel :: "planet \<Rightarrow> planet \<Rightarrow> (jsnum \<times> jsnum) option" where
  "pairAccel p q =
     (let dx = x q - x p;
          dy = y q - y p;
          r2 = dx * dx + dy * dy
      in if maxDistanceSquared < r2 then None
         else
           (let r = Math_sqrt (effectiveR2 r2);
                force = pairForce (effectiveR2 r2);
                accelX = force * dx / (r * PLANET_MASS);
                accelY = force * dy / (r * PLANET_MASS)
            in Some (accelX, accelY)))"

definition pairBody ::
  "planet list \<Rightarrow> nat \<Rightarrow> nat \<Rightarrow> jsnum list \<times> jsnum list \<Rightarrow> jsnum list \<times> jsnum list" where
  "pairBody ps i j acc =
     (case pairAccel (ps ! i) (ps ! j) of
        None \<Rightarrow> acc
      | Some (accelX, accelY) \<Rightarrow>
          (let ax1 = (fst acc)[i := fst acc ! i + accelX];
               ay1 = (snd acc)[i := snd acc ! i + accelY];
               ax2 = ax1[j := ax1 ! j - accelX];
               ay2 = ay1[j := ay1 ! j - accelY]
           in (ax2, ay2)))"

text \<open>
  The two nested loops. The indices stay below the number of planets, which is also the
  length of both accumulators, so every array access of the loops is in range.
\<close>

function innerLoop ::
  "planet list \<Rightarrow> nat \<Rightarrow> nat \<Rightarrow> jsnum list \<times> jsnum list \<Rightarrow> jsnum list \<times> jsnum list" where
  "innerLoop ps i j acc =
     (if j < length ps then innerLoop ps i (Suc j) (pairBody ps i j acc) else acc)"
  by pat_completeness auto
termination
  by (relation "measure (\<lambda>(ps, i, j, acc). length ps - j)") auto

declare innerLoop.simps [simp del]

function outerLoop ::
  "planet list \<Rightarrow> nat \<Rightarrow> jsnum list \<times> jsnum list \<Rightarrow> jsnum list \<times> jsnum list" where
  "outerLoop ps i acc =
     (if i < length ps then outerLoop ps (Suc i) (innerLoop ps i (Suc i) acc) else acc)"
  by pat_completeness auto
termination
  by (relation "measure (\<lambda>(ps, i, acc). length ps - i)") auto

declare outerLoop.simps [simp del]

definition calculatePlanetGravity ::
  "planet list \<Rightarrow> jsnum list \<times> jsnum list \<Rightarrow> jsnum list \<times> jsnum list" where
  "calculatePlanetGravity ps acc = outerLoop ps 0 acc"

function sunLoop ::
  "planet list \<Rightarrow> nat \<Rightarrow> jsnum list \<times> jsnum list \<Rightarrow> jsnum list \<times> jsnum list" where
  "sunLoop ps i acc =
     (if i < length ps then sunLoop ps (Suc i) (calculateSunGravity ps i acc) else acc)"
  by pat_completeness auto
termination
  by (relation "measure (\<lambda>(ps, i, acc). length ps - i)") auto

declare sunLoop.simps [simp del]

section \<open>The physics engine\<close>

text \<open>
  The engine's state: the planets in creation order, the time of the last trail sample and
  the collision effect. Times are readings of \<^verbatim>\<open>Date.now()\<close>, whole milliseconds. The scene
  and the effect's mesh are rendering objects and are not modelled.
\<close>

record engine =
  planets :: "planet list"
  lastTrailUpdateTime :: int
  collisionEffectActive :: bool
  collisionEffectX :: jsnum
  collisionEffectY :: jsnum
  collisionEffectStartTime :: int

definition PhysicsEngine :: engine where
  "PhysicsEngine =
     \<lparr>planets = [], lastTrailUpdateTime = 0, collisionEffectActive = False,
      collisionEffectX = Fin 0, collisionEffectY = Fin 0, collisionEffectStartTime = 0\<rparr>"

text \<open>
  \<^verbatim>\<open>addPlanet\<close>: push, then shift when the array has grown past the maximum. The colour
  drawn at random by \<^verbatim>\<open>Planet.randomPastelColor\<close> is an argument of the model.
\<close>

definition addPlanet :: "engine \<Rightarrow> jsnum \<Rightarrow> jsnum \<Rightarrow> jsnum \<Rightarrow> jsnum \<Rightarrow> nat \<Rightarrow> engine" where
  "addPlanet s x0 y0 vx0 vy0 c =
     (let planet = Planet x0 y0 vx0 vy0 c;
          s1 = s\<lparr>planets := planets s @ [planet]\<rparr>
      in if MAX_COUNT < length (planets s1) then s1\<lparr>planets := tl (planets s1)\<rparr> else s1)"


definition shouldUpdateTrails :: "engine \<Rightarrow> int \<Rightarrow> engine \<times> bool" where
  "shouldUpdateTrails s currentTime =
     (if TRAIL_UPDATE_INTERVAL < currentTime - lastTrailUpdateTime s
      then (s\<lparr>lastTrailUpdateTime := currentTime\<rparr>, True)
      else (s, False))"

text \<open>
  The last loop of \<^verbatim>\<open>update\<close>, from index \<open>i\<close> on. A planet's \<^verbatim>\<open>update\<close> that throws ends
  the loop: the planets before it have moved, the ones after it have not.
\<close>

function updatePlanets ::
  "planet list \<Rightarrow> nat \<Rightarrow> jsnum list \<Rightarrow> jsnum list \<Rightarrow> bool \<Rightarrow> planet list \<times> error option" where
  "updatePlanets ps i ax ay b =
     (if i < length ps then
        (case Planet_update (ps ! i) (ax ! i) (ay ! i) b of
           (p', Some e) \<Rightarrow> (ps[i := p'], Some e)
         | (p', None) \<Rightarrow> updatePlanets (ps[i := p']) (Suc i) ax ay b)
      else (ps, None))"
  by pat_completeness auto
termination
  by (relation "measure (\<lambda>(ps, i, ax, ay, b). length ps - i)") auto

declare updatePlanets.simps [simp del]

text \<open>
  \<^verbatim>\<open>update\<close>. It reads the clock twice: \<open>t1\<close> in \<^verbatim>\<open>shouldUpdateTrails\<close>, \<open>t2\<close> in the expiry
  check of the collision effect. The result is the state the call leaves behind, with
  either the value it returns or the error it throws.
\<close>

definition update :: "engine \<Rightarrow> int \<Rightarrow> int \<Rightarrow> engine \<times> (error + bool)" where
  "update s t1 t2 =
     (let (s1, shouldUpdateTrailPositions) = shouldUpdateTrails s t1;
          s2 = (if collisionEffectActive s1 then
                  (if COLLISION_EFFECT_DURATION < t2 - collisionEffectStartTime s1
                   then s1\<lparr>collisionEffectActive := False\<rparr> else s1)
                else s1)
      in if length (planets s2) = 0 then (s2, Inr shouldUpdateTrailPositions)
         else
           (let n = length (planets s2);
                acc0 = (replicate n (Fin 0), replicate n (Fin 0));
                acc1 = sunLoop (planets s2) 0 acc0;
                acc2 = calculatePlanetGravity (planets s2) acc1;
                (ps', thrown) = updatePlanets (planets s2) 0 (fst acc2) (snd acc2)
                                  shouldUpdateTrailPositions
            in (s2\<lparr>planets := ps'\<rparr>,
                (case thrown of Some e \<Rightarrow> Inl e | None \<Rightarrow> Inr shouldUpdateTrailPositions))))"

text \<open>
  \<^verbatim>\<open>removeOutOfBoundsPlanets\<close>. \<open>removeStep\<close> is the loop body at index \<open>i\<close>, with
  \<^verbatim>\<open>splice(i, 1)\<close> written as \<open>take\<close> and \<open>drop\<close>; \<open>removeLoop k\<close> runs the body for the indices
  \<open>k - 1\<close> down to 0. The clock is read once for each collision: \<open>clock i\<close> is the reading
  taken while index \<open>i\<close> is processed. Removing index \<open>i\<close> leaves the planets below \<open>i\<close> in
  place, so the index of every iteration is in range.
\<close>

definition removeStep :: "jsnum \<Rightarrow> jsnum \<Rightarrow> (nat \<Rightarrow> int) \<Rightarrow> nat \<Rightarrow> engine \<Rightarrow> engine" where
  "removeStep maxX maxY clock i s =
     (let planet = planets s ! i
      in if isOutOfBounds planet maxX maxY then
           s\<lparr>planets := take i (planets s) @ drop (Suc i) (planets s)\<rparr>
         else if isCollidedWithSun planet then
           (let s1 = s\<lparr>collisionEffectActive := True\<rparr>;
                s2 = s1\<lparr>collisionEffectX := x planet\<rparr>;
                s3 = s2\<lparr>collisionEffectY := y planet\<rparr>;
                s4 = s3\<lparr>collisionEffectStartTime := clock i\<rparr>
            in s4\<lparr>planets := take i (planets s4) @ drop (Suc i) (planets s4)\<rparr>)
         else s)"

fun removeLoop :: "jsnum \<Rightarrow> jsnum \<Rightarrow> (nat \<Rightarrow> int) \<Rightarrow> nat \<Rightarrow> engine \<Rightarrow> engine" where
  "removeLoop maxX maxY clock 0 s = s"
| "removeLoop maxX maxY clock (Suc i) s = removeLoop maxX maxY clock i (removeStep maxX maxY clock i s)"

definition removeOutOfBoundsPlanets :: "engine \<Rightarrow> jsnum \<Rightarrow> jsnum \<Rightarrow> (nat \<Rightarrow> int) \<Rightarrow> engine" where
  "removeOutOfBoundsPlanets s maxX maxY clock =
     (if length (planets s) = 0 then s
      else removeLoop maxX maxY clock (length (planets s)) s)"

definition getPlanetCount :: "engine \<Rightarrow> nat" where
  "getPlanetCount s = length (planets s)"

definition hasActiveCollisionEffect :: "engine \<Rightarrow> bool" where
  "hasActiveCollisionEffect s = collisionEffectActive s"

definition getCollisionEffectX :: "engine \<Rightarrow> jsnum" where
  "getCollisionEffectX s = collisionEffectX s"

definition getCollisionEffectY :: "engine \<Rightarrow> jsnum" where
  "getCollisionEffectY s = collisionEffectY s"

text \<open>
  A sequence of \<^verbatim>\<open>addPlanet\<close> calls, each given by its arguments, and the planet that one
  call constructs.
\<close>

definition newPlanet :: "jsnum \<times> jsnum \<times> jsnum \<times> jsnum \<times> nat \<Rightarrow> planet" where
  "newPlanet = (\<lambda>(x0, y0, vx0, vy0, c). Planet x0 y0 vx0 vy0 c)"

definition addPlanets :: "engine \<Rightarrow> (jsnum \<times> jsnum \<times> jsnum \<times> jsnum \<times> nat) list \<Rightarrow> engine" where
  "addPlanets s calls = foldl (\<lambda>s (x0, y0, vx0, vy0, c). addPlanet s x0 y0 vx0 vy0 c) s calls"



section \<open>The planet array as a shared object\<close>

text \<open>
  \<^verbatim>\<open>getPlanets\<close> returns \<^verbatim>\<open>this.planets\<close>. To say what a caller holding that result
  observes, arrays live in a store and the engine's field holds a reference. The field is
  assigned once, in the constructor; \<^verbatim>\<open>push\<close>, \<^verbatim>\<open>shift\<close> and \<^verbatim>\<open>splice\<close> change the array
  object in place. So an operation of the engine reads the array behind the reference,
  runs as in the model above, and writes the resulting planets back to the same reference.
\<close>

type_synonym ref = nat

record world =
  arrays :: "ref \<Rightarrow> planet list"
  planetsRef :: ref
  obj :: engine

definition deref :: "world \<Rightarrow> engine" where
  "deref w = (obj w)\<lparr>planets := arrays w (planetsRef w)\<rparr>"

definition inPlace :: "(engine \<Rightarrow> engine) \<Rightarrow> world \<Rightarrow> world" where
  "inPlace f w =
     (let s' = f (deref w)
      in w\<lparr>arrays := (arrays w)(planetsRef w := planets s'), obj := s'\<rparr>)"

definition getPlanets :: "world \<Rightarrow> ref" where
  "getPlanets w = planetsRef w"

text \<open>A caller's assignment through a reference it holds: the array behind \<open>r\<close> becomes \<open>ps\<close>.\<close>

definition callerWrite :: "ref \<Rightarrow> planet list \<Rightarrow> world \<Rightarrow> world" where
  "callerWrite r ps w = w\<lparr>arrays := (arrays w)(r := ps)\<rparr>"

definition newWorld :: world where
  "newWorld = \<lparr>arrays = (\<lambda>r. []), planetsRef = 0, obj = PhysicsEngine\<rparr>"

text \<open>The engine's three mutating operations, run on the world.\<close>

definition addPlanet_inPlace ::
  "world \<Rightarrow> jsnum \<Rightarrow> jsnum \<Rightarrow> jsnum \<Rightarrow> jsnum \<Rightarrow> nat \<Rightarrow> world" where
  "addPlanet_inPlace w x0 y0 vx0 vy0 c = inPlace (\<lambda>s. addPlanet s x0 y0 vx0 vy0 c) w"

definition update_inPlace :: "world \<Rightarrow> int \<Rightarrow> int \<Rightarrow> world" where
  "update_inPlace w t1 t2 = inPlace (\<lambda>s. fst (update s t1 t2)) w"

definition removeOutOfBoundsPlanets_inPlace ::
  "world \<Rightarrow> jsnum \<Rightarrow> jsnum \<Rightarrow> (nat \<Rightarrow> int) \<Rightarrow> world" where
  "removeOutOfBoundsPlanets_inPlace w maxX maxY clock =
     inPlace (\<lambda>s. removeOutOfBoundsPlanets s maxX maxY clock) w"

section \<open>Capacity and eviction\<close>

lemma planets_addPlanet:
  "planets (addPlanet s x0 y0 vx0 vy0 c) =
     (if length (planets s) < MAX_COUNT then planets s @ [Planet x0 y0 vx0 vy0 c]
      else tl (planets s) @ [Planet x0 y0 vx0 vy0 c])"
  by (cases "planets s") (auto simp: addPlanet_def Let_def MAX_COUNT_def)

lemma addPlanets_snoc:
  "addPlanets s (calls @ [(x0, y0, vx0, vy0, c)]) = addPlanet (addPlanets s calls) x0 y0 vx0 vy0 c"
  by (simp add: addPlanets_def)

lemma planets_addPlanets:
  "planets (addPlanets PhysicsEngine calls) =
     map newPlanet (drop (length calls - MAX_COUNT) calls)"
proof (induction calls rule: rev_induct)
  case Nil
  then show ?case by (simp add: addPlanets_def PhysicsEngine_def)
next
  case (snoc call calls)
  obtain x0 y0 vx0 vy0 c where call: "call = (x0, y0, vx0, vy0, c)"
    by (cases call) auto
  show ?case
  proof (cases "length calls < MAX_COUNT")
    case True
    then show ?thesis
      using snoc unfolding call addPlanets_snoc
      by (simp add: planets_addPlanet newPlanet_def)
  next
    case False
    then have "Suc (length calls) - MAX_COUNT = Suc (length calls - MAX_COUNT)"
      by simp
    then show ?thesis
      using snoc False unfolding call addPlanets_snoc
      by (simp add: planets_addPlanet newPlanet_def MAX_COUNT_def drop_Suc drop_tl map_tl)
  qed
qed

text \<open>
  Claim C1. After every sequence of \<^verbatim>\<open>addPlanet\<close> calls on a new engine the number of live
  planets is at most \<open>MAX_COUNT\<close>, and the live planets are the last \<open>MAX_COUNT\<close> planets
  added, in creation order. In any state, a call on an engine that is full removes exactly
  the head of the list, whatever the positions and velocities are, and appends the new
  planet; a call on an engine that is not full only appends; either way a count within
  \<open>MAX_COUNT\<close> stays within it. After \<open>MAX_COUNT + 1\<close> calls on a new engine there are
  \<open>MAX_COUNT\<close> planets, the oldest of which is the second one added.
\<close>

theorem addPlanet_fifo_eviction:
  "getPlanetCount (addPlanets PhysicsEngine calls) \<le> MAX_COUNT
   \<and> planets (addPlanets PhysicsEngine calls) =
       map newPlanet (drop (length calls - MAX_COUNT) calls)
   \<and> planets (addPlanet s x0 y0 vx0 vy0 c) =
       (if getPlanetCount s < MAX_COUNT then planets s @ [Planet x0 y0 vx0 vy0 c]
        else tl (planets s) @ [Planet x0 y0 vx0 vy0 c])
   \<and> (getPlanetCount s \<le> MAX_COUNT \<longrightarrow>
        getPlanetCount (addPlanet s x0 y0 vx0 vy0 c) \<le> MAX_COUNT)
   \<and> (length calls = MAX_COUNT + 1 \<longrightarrow>
        getPlanetCount (addPlanets PhysicsEngine calls) = MAX_COUNT
        \<and> hd (planets (addPlanets PhysicsEngine calls)) = newPlanet (calls ! 1))"
proof -
  have count: "getPlanetCount (addPlanets PhysicsEngine calls) \<le> MAX_COUNT"
    by (simp add: getPlanetCount_def planets_addPlanets)
  have step: "planets (addPlanet s x0 y0 vx0 vy0 c) =
       (if getPlanetCount s < MAX_COUNT then planets s @ [Planet x0 y0 vx0 vy0 c]
        else tl (planets s) @ [Planet x0 y0 vx0 vy0 c])"
    unfolding getPlanetCount_def by (rule planets_addPlanet)
  have keeps: "getPlanetCount (addPlanet s x0 y0 vx0 vy0 c) \<le> MAX_COUNT"
    if "getPlanetCount s \<le> MAX_COUNT"
    using that by (auto simp add: getPlanetCount_def planets_addPlanet MAX_COUNT_def)
  have scenario: "getPlanetCount (addPlanets PhysicsEngine calls) = MAX_COUNT
        \<and> hd (planets (addPlanets PhysicsEngine calls)) = newPlanet (calls ! 1)"
    if "length calls = MAX_COUNT + 1"
  proof -
    from that have "drop (length calls - MAX_COUNT) calls = drop 1 calls" and "1 < length calls"
      by (simp_all add: MAX_COUNT_def)
    then show ?thesis
      using that by (simp add: getPlanetCount_def planets_addPlanets hd_map hd_drop_conv_nth)
  qed
  from count step keeps scenario show ?thesis
    using planets_addPlanets by blast
qed

theorem addPlanet_fifo_eviction_witness:
  "length
      [(Fin 0, Fin 0, Fin 0, Fin 0, 0),
         (Fin 1, Fin 0, Fin 0, Fin 0, 1),
         (Fin 2, Fin 0, Fin 0, Fin 0, 2),
         (Fin 3, Fin 0, Fin 0, Fin 0, 3),
         (Fin 4, Fin 0, Fin 0, Fin 0, 4),
         (Fin 5, Fin 0, Fin 0, Fin 0, 5),
         (Fin 6, Fin 0, Fin 0, Fin 0, 6),
         (Fin 7, Fin 0, Fin 0, Fin 0, 7),
         (Fin 8, Fin 0, Fin 0, Fin 0, 8),
         (Fin 9, Fin 0, Fin 0, Fin 0, 9),
         (Fin 10, Fin 0, Fin 0, Fin 0, 10)]
     = MAX_COUNT + 1
   \<and> getPlanetCount
        (addPlanets PhysicsEngine
        [(Fin 0, Fin 0, Fin 0, Fin 0, 0),
         (Fin 1, Fin 0, Fin 0, Fin 0, 1),
         (Fin 2, Fin 0, Fin 0, Fin 0, 2),
         (Fin 3, Fin 0, Fin 0, Fin 0, 3),
         (Fin 4, Fin 0, Fin 0, Fin 0, 4),
         (Fin 5, Fin 0, Fin 0, Fin 0, 5),
         (Fin 6, Fin 0, Fin 0, Fin 0, 6),
         (Fin 7, Fin 0, Fin 0, Fin 0, 7),
         (Fin 8, Fin 0, Fin 0, Fin 0, 8),
         (Fin 9, Fin 0, Fin 0, Fin 0, 9),
         (Fin 10, Fin 0, Fin 0, Fin 0, 10)])
       = MAX_COUNT
   \<and> hd (planets
        (addPlanets PhysicsEngine
        [(Fin 0, Fin 0, Fin 0, Fin 0, 0),
         (Fin 1, Fin 0, Fin 0, Fin 0, 1),
         (Fin 2, Fin 0, Fin 0, Fin 0, 2),
         (Fin 3, Fin 0, Fin 0, Fin 0, 3),
         (Fin 4, Fin 0, Fin 0, Fin 0, 4),
         (Fin 5, Fin 0, Fin 0, Fin 0, 5),
         (Fin 6, Fin 0, Fin 0, Fin 0, 6),
         (Fin 7, Fin 0, Fin 0, Fin 0, 7),
         (Fin 8, Fin 0, Fin 0, Fin 0, 8),
         (Fin 9, Fin 0, Fin 0, Fin 0, 9),
         (Fin 10, Fin 0, Fin 0, Fin 0, 10)]))
       = Planet (Fin 1) (Fin 0) (Fin 0) (Fin 0) 1
   \<and> getPlanetCount PhysicsEngine \<le> MAX_COUNT
   \<and> getPlanetCount (addPlanet PhysicsEngine (Fin 0) (Fin 0) (Fin 0) (Fin 0) 0) \<le> MAX_COUNT"
  using addPlanet_fifo_eviction
    [of "[(Fin 0, Fin 0, Fin 0, Fin 0, 0),
         (Fin 1, Fin 0, Fin 0, Fin 0, 1),
         (Fin 2, Fin 0, Fin 0, Fin 0, 2),
         (Fin 3, Fin 0, Fin 0, Fin 0, 3),
         (Fin 4, Fin 0, Fin 0, Fin 0, 4),
         (Fin 5, Fin 0, Fin 0, Fin 0, 5),
         (Fin 6, Fin 0, Fin 0, Fin 0, 6),
         (Fin 7, Fin 0, Fin 0, Fin 0, 7),
         (Fin 8, Fin 0, Fin 0, Fin 0, 8),
         (Fin 9, Fin 0, Fin 0, Fin 0, 9),
         (Fin 10, Fin 0, Fin 0, Fin 0, 10)]"
       PhysicsEngine "Fin 0" "Fin 0" "Fin 0" "Fin 0" 0]
  by (simp add: MAX_COUNT_def newPlanet_def getPlanetCount_def PhysicsEngine_def)

section \<open>The singularity of the sun's gravity\<close>

lemma sunAccel_origin: "sunAccel (Planet (Fin 0) (Fin 0) vx0 vy0 c) = (NaN, NaN)"
  by (simp add: sunAccel_def Planet_def G_def PLANET_MASS_def SUN_MASS_def
      distanceScaleSquared_def DISTANCE_SCALE_def)

text \<open>
  Claim C7. The sun's gravity has no minimum distance. For a planet at the origin the
  distance is zero, the force is infinite and both components of the acceleration are NaN;
  one \<^verbatim>\<open>update\<close> of an engine holding only a planet added at rest at the origin leaves that
  planet with NaN velocity and position.
\<close>

theorem sun_gravity_singular_at_origin:
  "sunAccel (Planet (Fin 0) (Fin 0) vx0 vy0 c) = (NaN, NaN)
   \<and> map (\<lambda>p. (x p, y p, vx p, vy p))
        (planets (fst (update (addPlanet PhysicsEngine (Fin 0) (Fin 0) (Fin 0) (Fin 0) c) t1 t2)))
       = [(NaN, NaN, NaN, NaN)]"
proof -
  have "map (\<lambda>p. (x p, y p, vx p, vy p))
        (planets (fst (update (addPlanet PhysicsEngine (Fin 0) (Fin 0) (Fin 0) (Fin 0) c) t1 t2)))
       = [(NaN, NaN, NaN, NaN)]"
    apply (simp add: update_def addPlanet_def PhysicsEngine_def MAX_COUNT_def
        shouldUpdateTrails_def Let_def split: prod.splits)
    apply (simp add: calculatePlanetGravity_def calculateSunGravity_def
        sunLoop.simps outerLoop.simps innerLoop.simps updatePlanets.simps
        sunAccel_origin[unfolded Planet_def] Planet_update_def Planet_def TIME_SCALE_def
        Let_def split: prod.splits option.splits)
    done
  then show ?thesis
    by (simp add: sunAccel_origin)
qed

section \<open>Updating the planets and their trails\<close>

text \<open>When no planet's \<^verbatim>\<open>update\<close> throws, the last loop of the engine updates every planet.\<close>

lemma updatePlanets_no_throw:
  assumes "\<forall>k. i \<le> k \<and> k < length ps \<longrightarrow> snd (Planet_update (ps ! k) (ax ! k) (ay ! k) b) = None"
  shows "updatePlanets ps i ax ay b =
     (take i ps @ map (\<lambda>k. fst (Planet_update (ps ! k) (ax ! k) (ay ! k) b)) [i..<length ps], None)"
  using assms
proof (induction ps i ax ay b rule: updatePlanets.induct)
  case (1 ps i ax ay b)
  show ?case
  proof (cases "i < length ps")
    case False
    then show ?thesis by (simp add: updatePlanets.simps[of ps i])
  next
    case True
    obtain p' where pu: "Planet_update (ps ! i) (ax ! i) (ay ! i) b = (p', None)"
      using "1.prems" True by (metis le_refl prod.collapse)
    let ?ps' = "ps[i := p']"
    have later: "\<forall>k. Suc i \<le> k \<and> k < length ?ps' \<longrightarrow>
        snd (Planet_update (?ps' ! k) (ax ! k) (ay ! k) b) = None"
      using "1.prems" by simp
    have ih: "updatePlanets ?ps' (Suc i) ax ay b =
       (take (Suc i) ?ps' @ map (\<lambda>k. fst (Planet_update (?ps' ! k) (ax ! k) (ay ! k) b)) [Suc i..<length ?ps'], None)"
      using "1.IH"[OF True pu[symmetric] refl later] .
    have m: "map (\<lambda>k. fst (Planet_update (?ps' ! k) (ax ! k) (ay ! k) b)) [Suc i..<length ?ps'] =
             map (\<lambda>k. fst (Planet_update (ps ! k) (ax ! k) (ay ! k) b)) [Suc i..<length ps]"
      by (rule map_cong) simp_all
    have t: "take (Suc i) ?ps' = take i ps @ [p']"
      using True by (simp add: take_Suc_conv_app_nth)
    have "updatePlanets ps i ax ay b = updatePlanets ?ps' (Suc i) ax ay b"
      using True by (subst updatePlanets.simps) (simp add: pu)
    also have "\<dots> = (take i ps @ p' # map (\<lambda>k. fst (Planet_update (ps ! k) (ax ! k) (ay ! k) b)) [Suc i..<length ps], None)"
      unfolding ih m t by simp
    also have "p' # map (\<lambda>k. fst (Planet_update (ps ! k) (ax ! k) (ay ! k) b)) [Suc i..<length ps]
        = map (\<lambda>k. fst (Planet_update (ps ! k) (ax ! k) (ay ! k) b)) [i..<length ps]"
      using True pu by (simp add: upt_conv_Cons)
    finally show ?thesis .
  qed
qed

text \<open>
  On an array of \<open>TRAIL_LENGTH\<close> entries, shifting and writing the head is: the new entry
  in front, the last entry dropped.
\<close>

lemma length_shiftTrail: "j < length tp \<Longrightarrow> length (shiftTrail j tp) = length tp"
  by (induction j arbitrary: tp) (simp_all add: array_set_def)

lemma nth_shiftTrail:
  "j < length tp \<Longrightarrow> k < length tp \<Longrightarrow>
   shiftTrail j tp ! k = (if 0 < k \<and> k \<le> j then tp ! (k - 1) else tp ! k)"
proof (induction j arbitrary: tp)
  case 0
  then show ?case by simp
next
  case (Suc j)
  let ?tp' = "array_set tp (Suc j) (array_get tp j)"
  have tp': "?tp' = tp[Suc j := tp ! j]"
    using Suc.prems by (simp add: array_set_def array_get_def)
  have "shiftTrail j ?tp' ! k = (if 0 < k \<and> k \<le> j then ?tp' ! (k - 1) else ?tp' ! k)"
    using Suc.prems by (intro Suc.IH) (simp_all add: tp')
  then show ?case
    using Suc.prems by (cases "k = Suc j") (auto simp add: tp' nth_list_update)
qed

lemma shift_and_insert:
  assumes "length tp = TRAIL_LENGTH"
  shows "array_set (shiftTrail (TRAIL_LENGTH - 1) tp) 0 v = v # butlast tp"
proof (rule nth_equalityI)
  have pos: "0 < length tp" using assms by (simp add: TRAIL_LENGTH_def)
  then have len: "length (shiftTrail (TRAIL_LENGTH - 1) tp) = length tp"
    using assms by (intro length_shiftTrail) simp
  have set0: "array_set (shiftTrail (TRAIL_LENGTH - 1) tp) 0 v = (shiftTrail (TRAIL_LENGTH - 1) tp)[0 := v]"
    using pos len by (simp only: array_set_def if_True)
  show l: "length (array_set (shiftTrail (TRAIL_LENGTH - 1) tp) 0 v) = length (v # butlast tp)"
    using pos by (simp only: set0 len length_list_update) simp
  fix k assume "k < length (array_set (shiftTrail (TRAIL_LENGTH - 1) tp) 0 v)"
  then have k: "k < length tp" by (simp only: set0 len length_list_update)
  have "k \<le> TRAIL_LENGTH - 1"
    using k assms by simp
  moreover have "shiftTrail (TRAIL_LENGTH - 1) tp ! k = (if 0 < k \<and> k \<le> TRAIL_LENGTH - 1 then tp ! (k - 1) else tp ! k)"
    using k pos assms by (intro nth_shiftTrail) simp_all
  ultimately show "array_set (shiftTrail (TRAIL_LENGTH - 1) tp) 0 v ! k = (v # butlast tp) ! k"
    using k pos assms len unfolding set0 by (cases k) (simp_all add: nth_butlast)
qed

lemma Planet_update_no_trail:
  "trailPositions (fst (Planet_update p ax ay False)) = trailPositions p
   \<and> snd (Planet_update p ax ay False) = None"
  by (simp add: Planet_update_def Let_def)

lemma Planet_update_trail:
  assumes "trailPositions p = Some tp" "length tp = TRAIL_LENGTH"
  shows "snd (Planet_update p ax ay True) = None"
    and "trailPositions (fst (Planet_update p ax ay True)) =
      Some (Some (x (fst (Planet_update p ax ay True)), y (fst (Planet_update p ax ay True))) # butlast tp)"
  using assms by (simp_all add: Planet_update_def Let_def shift_and_insert[unfolded One_nat_def])


text \<open>
  What \<^verbatim>\<open>update\<close> does to the planets when no planet's \<^verbatim>\<open>update\<close> throws: each planet is
  updated with its slots of the accumulators that the two gravity passes have filled.
\<close>

lemma update_gravity_no_throw:
  assumes "\<And>p ax ay. p \<in> set (planets s) \<Longrightarrow>
      snd (Planet_update p ax ay (TRAIL_UPDATE_INTERVAL < t1 - lastTrailUpdateTime s)) = None"
  shows "planets (fst (update s t1 t2)) =
           map (\<lambda>k. fst (Planet_update (planets s ! k)
                  (fst (calculatePlanetGravity (planets s)
                     (sunLoop (planets s) 0
                        (replicate (length (planets s)) (Fin 0),
                         replicate (length (planets s)) (Fin 0)))) ! k)
                  (snd (calculatePlanetGravity (planets s)
                     (sunLoop (planets s) 0
                        (replicate (length (planets s)) (Fin 0),
                         replicate (length (planets s)) (Fin 0)))) ! k)
                  (TRAIL_UPDATE_INTERVAL < t1 - lastTrailUpdateTime s)))
             [0..<length (planets s)]
       \<and> snd (update s t1 t2) = Inr (TRAIL_UPDATE_INTERVAL < t1 - lastTrailUpdateTime s)"
proof -
  let ?b = "TRAIL_UPDATE_INTERVAL < t1 - lastTrailUpdateTime s"
  define s1 where "s1 = fst (shouldUpdateTrails s t1)"
  have s1: "shouldUpdateTrails s t1 = (s1, ?b)" and p1: "planets s1 = planets s"
    by (simp_all add: s1_def shouldUpdateTrails_def)
  define s2 where "s2 = (if collisionEffectActive s1 then
                  (if COLLISION_EFFECT_DURATION < t2 - collisionEffectStartTime s1
                   then s1\<lparr>collisionEffectActive := False\<rparr> else s1)
                else s1)"
  have p2: "planets s2 = planets s"
    by (simp add: s2_def p1)
  define acc where "acc = calculatePlanetGravity (planets s)
       (sunLoop (planets s) 0
          (replicate (length (planets s)) (Fin 0), replicate (length (planets s)) (Fin 0)))"
  have "planets (fst (update s t1 t2)) =
           map (\<lambda>k. fst (Planet_update (planets s ! k) (fst acc ! k) (snd acc ! k) ?b))
             [0..<length (planets s)]
       \<and> snd (update s t1 t2) = Inr ?b"
  proof (cases "planets s = []")
    case True
    then show ?thesis
      by (simp add: update_def s1 Let_def p1)
  next
    case False
    have "\<forall>k. 0 \<le> k \<and> k < length (planets s) \<longrightarrow>
        snd (Planet_update (planets s ! k) (fst acc ! k) (snd acc ! k) ?b) = None"
      using assms by simp
    then have up: "updatePlanets (planets s) 0 (fst acc) (snd acc) ?b =
       (map (\<lambda>k. fst (Planet_update (planets s ! k) (fst acc ! k) (snd acc ! k) ?b))
          [0..<length (planets s)], None)"
      using updatePlanets_no_throw[of 0 "planets s" "fst acc" "snd acc" ?b] by simp
    show ?thesis
      using False
      by (simp add: update_def s1 Let_def s2_def[symmetric] p2 acc_def[symmetric] up)
  qed
  then show ?thesis
    unfolding acc_def .
qed

lemma update_no_throw:
  assumes "\<And>p ax ay. p \<in> set (planets s) \<Longrightarrow>
      snd (Planet_update p ax ay (TRAIL_UPDATE_INTERVAL < t1 - lastTrailUpdateTime s)) = None"
  shows "\<exists>ax ay. planets (fst (update s t1 t2)) =
           map (\<lambda>k. fst (Planet_update (planets s ! k) (ax ! k) (ay ! k)
                  (TRAIL_UPDATE_INTERVAL < t1 - lastTrailUpdateTime s)))
             [0..<length (planets s)]
       \<and> snd (update s t1 t2) = Inr (TRAIL_UPDATE_INTERVAL < t1 - lastTrailUpdateTime s)"
  using update_gravity_no_throw[OF assms] by blast

text \<open>
  Claim C6. When the time read by \<^verbatim>\<open>update\<close> is not more than \<open>TRAIL_UPDATE_INTERVAL\<close> after
  the last trail sample, the call returns false and the trail of every planet is what it
  was. When it is more, and every planet has its trail of \<open>TRAIL_LENGTH\<close> entries, the call
  returns true, and the trail of every planet is its new position followed by the old
  trail without its last entry, again \<open>TRAIL_LENGTH\<close> entries with the most recent first.
\<close>

theorem trail_sampling:
  "(\<not> TRAIL_UPDATE_INTERVAL < t1 - lastTrailUpdateTime s \<longrightarrow>
      map trailPositions (planets (fst (update s t1 t2))) = map trailPositions (planets s)
      \<and> snd (update s t1 t2) = Inr False)
   \<and> (TRAIL_UPDATE_INTERVAL < t1 - lastTrailUpdateTime s
       \<and> (\<forall>p \<in> set (planets s). \<exists>tp. trailPositions p = Some tp \<and> length tp = TRAIL_LENGTH) \<longrightarrow>
      snd (update s t1 t2) = Inr True
      \<and> length (planets (fst (update s t1 t2))) = length (planets s)
      \<and> (\<forall>i < length (planets s).
            trailPositions (planets (fst (update s t1 t2)) ! i) =
              Some (Some (x (planets (fst (update s t1 t2)) ! i),
                          y (planets (fst (update s t1 t2)) ! i))
                    # butlast (the (trailPositions (planets s ! i))))
            \<and> length (the (trailPositions (planets (fst (update s t1 t2)) ! i))) = TRAIL_LENGTH))"
proof (intro conjI impI)
  assume no: "\<not> TRAIL_UPDATE_INTERVAL < t1 - lastTrailUpdateTime s"
  then obtain ax ay where ps': "planets (fst (update s t1 t2)) =
           map (\<lambda>k. fst (Planet_update (planets s ! k) (ax ! k) (ay ! k) False))
             [0..<length (planets s)]" and r: "snd (update s t1 t2) = Inr False"
    using update_no_throw[of s t1 t2] by (auto simp add: Planet_update_no_trail)
  show "snd (update s t1 t2) = Inr False" by (rule r)
  show "map trailPositions (planets (fst (update s t1 t2))) = map trailPositions (planets s)"
    by (rule nth_equalityI) (simp_all add: ps' Planet_update_no_trail)
next
  assume a: "TRAIL_UPDATE_INTERVAL < t1 - lastTrailUpdateTime s
       \<and> (\<forall>p \<in> set (planets s). \<exists>tp. trailPositions p = Some tp \<and> length tp = TRAIL_LENGTH)"
  then have "\<And>p ax ay. p \<in> set (planets s) \<Longrightarrow> snd (Planet_update p ax ay True) = None"
    using Planet_update_trail(1) by blast
  with a obtain ax ay where ps': "planets (fst (update s t1 t2)) =
           map (\<lambda>k. fst (Planet_update (planets s ! k) (ax ! k) (ay ! k) True))
             [0..<length (planets s)]" and r: "snd (update s t1 t2) = Inr True"
    using update_no_throw[of s t1 t2] by auto
  show "snd (update s t1 t2) = Inr True" by (rule r)
  show "length (planets (fst (update s t1 t2))) = length (planets s)"
    by (simp add: ps')
  show "\<forall>i < length (planets s).
            trailPositions (planets (fst (update s t1 t2)) ! i) =
              Some (Some (x (planets (fst (update s t1 t2)) ! i),
                          y (planets (fst (update s t1 t2)) ! i))
                    # butlast (the (trailPositions (planets s ! i))))
            \<and> length (the (trailPositions (planets (fst (update s t1 t2)) ! i))) = TRAIL_LENGTH"
  proof (intro allI impI)
    fix i assume i: "i < length (planets s)"
    then obtain tp where tp: "trailPositions (planets s ! i) = Some tp" "length tp = TRAIL_LENGTH"
      using a by (meson nth_mem)
    have nth: "planets (fst (update s t1 t2)) ! i = fst (Planet_update (planets s ! i) (ax ! i) (ay ! i) True)"
      using i by (simp add: ps')
    have pos: "0 < length tp" using tp(2) by (simp add: TRAIL_LENGTH_def)
    show "trailPositions (planets (fst (update s t1 t2)) ! i) =
              Some (Some (x (planets (fst (update s t1 t2)) ! i),
                          y (planets (fst (update s t1 t2)) ! i))
                    # butlast (the (trailPositions (planets s ! i))))
            \<and> length (the (trailPositions (planets (fst (update s t1 t2)) ! i))) = TRAIL_LENGTH"
      unfolding nth Planet_update_trail(2)[OF tp] using tp pos by simp
  qed
qed

theorem trail_sampling_witness:
  "\<not> TRAIL_UPDATE_INTERVAL < 10 - lastTrailUpdateTime
        (PhysicsEngine\<lparr>planets := [initTrail (Planet (Fin 50) (Fin 0) (Fin 0) (Fin 1) 0)]\<rparr>)
   \<and> map trailPositions (planets (fst (update
        (PhysicsEngine\<lparr>planets := [initTrail (Planet (Fin 50) (Fin 0) (Fin 0) (Fin 1) 0)]\<rparr>)
        10 10)))
       = [Some (replicate 10 (Some (Fin 50, Fin 0)))]
   \<and> TRAIL_UPDATE_INTERVAL < 100 - lastTrailUpdateTime
        (PhysicsEngine\<lparr>planets := [initTrail (Planet (Fin 50) (Fin 0) (Fin 0) (Fin 1) 0)]\<rparr>)
   \<and> snd (update
        (PhysicsEngine\<lparr>planets := [initTrail (Planet (Fin 50) (Fin 0) (Fin 0) (Fin 1) 0)]\<rparr>)
        100 100) = Inr True
   \<and> length (the (trailPositions (planets (fst (update
        (PhysicsEngine\<lparr>planets := [initTrail (Planet (Fin 50) (Fin 0) (Fin 0) (Fin 1) 0)]\<rparr>)
        100 100)) ! 0))) = TRAIL_LENGTH"
  using trail_sampling
    [of 10 "PhysicsEngine\<lparr>planets := [initTrail (Planet (Fin 50) (Fin 0) (Fin 0) (Fin 1) 0)]\<rparr>" 10]
    trail_sampling
    [of 100 "PhysicsEngine\<lparr>planets := [initTrail (Planet (Fin 50) (Fin 0) (Fin 0) (Fin 1) 0)]\<rparr>" 100]
  by (simp add: PhysicsEngine_def Planet_def initTrail_def TRAIL_LENGTH_def
      TRAIL_UPDATE_INTERVAL_def)

section \<open>Gravity between planets\<close>


lemma maxDistanceSquared_eq: "maxDistanceSquared = Fin 10000"
  by (simp add: maxDistanceSquared_def MAX_FORCE_DISTANCE_def)






lemma pairAccel_None_iff: "pairAccel p q = None \<longleftrightarrow> maxDistanceSquared < pairR2 p q"
  by (simp add: pairAccel_def pairR2_def Let_def)


lemma jsnum_minus_eq: "(u::jsnum) - v = u + (- v)"
  by (simp add: minus_jsnum_def)

lemma jsnum_abs_uminus: "\<bar>- (u::jsnum)\<bar> = \<bar>u\<bar>"
  by (cases u) auto

















text \<open>
  Claim C4. For a pair that is not skipped, the iteration adds the acceleration
  \<open>(accelX, accelY)\<close> to the accumulators of planet \<open>i\<close> and subtracts it from those of planet
  \<open>j\<close>. Subtracting is adding the negation, so planet \<open>j\<close> receives exactly the negated
  components, which have the same magnitude; no other slot of the accumulators changes.
\<close>

theorem pair_accelerations_opposite:
  assumes "i < j" "j < length ps" "length ax = length ps" "length ay = length ps"
    and "\<not> maxDistanceSquared < pairR2 (ps ! i) (ps ! j)"
  shows "\<exists>accelX accelY. pairAccel (ps ! i) (ps ! j) = Some (accelX, accelY)
     \<and> pairBody ps i j (ax, ay) =
         (ax[i := ax ! i + accelX, j := ax ! j + (- accelX)],
          ay[i := ay ! i + accelY, j := ay ! j + (- accelY)])
     \<and> fst (pairBody ps i j (ax, ay)) ! i = ax ! i + accelX
     \<and> snd (pairBody ps i j (ax, ay)) ! i = ay ! i + accelY
     \<and> fst (pairBody ps i j (ax, ay)) ! j = ax ! j + (- accelX)
     \<and> snd (pairBody ps i j (ax, ay)) ! j = ay ! j + (- accelY)
     \<and> \<bar>- accelX\<bar> = \<bar>accelX\<bar> \<and> \<bar>- accelY\<bar> = \<bar>accelY\<bar>"
proof -
  from assms(5) obtain accelX accelY
    where some: "pairAccel (ps ! i) (ps ! j) = Some (accelX, accelY)"
    using pairAccel_None_iff by (cases "pairAccel (ps ! i) (ps ! j)") auto
  have body: "pairBody ps i j (ax, ay) =
         (ax[i := ax ! i + accelX, j := ax ! j + (- accelX)],
          ay[i := ay ! i + accelY, j := ay ! j + (- accelY)])"
    using assms(1) by (simp add: pairBody_def some Let_def jsnum_minus_eq)
  show ?thesis
    using assms(1-4) by (auto simp add: some body jsnum_abs_uminus)
qed

theorem pair_accelerations_opposite_witness:
  "\<not> maxDistanceSquared <
       pairR2 (Planet (Fin 0) (Fin 0) (Fin 0) (Fin 0) 0) (Planet (Fin 3) (Fin 4) (Fin 0) (Fin 0) 1)
   \<and> (\<exists>accelX accelY.
        pairAccel (Planet (Fin 0) (Fin 0) (Fin 0) (Fin 0) 0)
          (Planet (Fin 3) (Fin 4) (Fin 0) (Fin 0) 1) = Some (accelX, accelY)
        \<and> pairBody
            [Planet (Fin 0) (Fin 0) (Fin 0) (Fin 0) 0, Planet (Fin 3) (Fin 4) (Fin 0) (Fin 0) 1]
            0 1 ([Fin 1, Fin 2], [Fin 3, Fin 4]) =
           ([Fin 1 + accelX, Fin 2 + (- accelX)], [Fin 3 + accelY, Fin 4 + (- accelY)]))"
  using pair_accelerations_opposite
    [of 0 1 "[Planet (Fin 0) (Fin 0) (Fin 0) (Fin 0) 0, Planet (Fin 3) (Fin 4) (Fin 0) (Fin 0) 1]"
        "[Fin 1, Fin 2]" "[Fin 3, Fin 4]"]
  by (simp add: Planet_def pairR2_def maxDistanceSquared_eq minus_jsnum_def) blast

section \<open>The removal pass\<close>












section \<open>The collision effect\<close>




section \<open>What \<^verbatim>\<open>getPlanets\<close> returns\<close>

text \<open>
  Claim C9, as stated, fails. The array that \<^verbatim>\<open>getPlanets\<close> returned for a new engine is
  empty; after one \<^verbatim>\<open>addPlanet\<close> the same array holds a planet, so the operation did not
  leave the returned sequence unchanged. And after the caller has stored a planet in the
  returned array, the engine counts one planet.
\<close>

theorem getPlanets_snapshot_counterexample:
  "arrays (addPlanet_inPlace newWorld (Fin 1) (Fin 0) (Fin 0) (Fin 0) 0) (getPlanets newWorld)
     \<noteq> arrays newWorld (getPlanets newWorld)
   \<and> deref (callerWrite (getPlanets newWorld) [Planet (Fin 1) (Fin 0) (Fin 0) (Fin 0) 0] newWorld)
     \<noteq> deref newWorld
   \<and> arrays newWorld (getPlanets newWorld) = []
   \<and> arrays (addPlanet_inPlace newWorld (Fin 1) (Fin 0) (Fin 0) (Fin 0) 0) (getPlanets newWorld)
       = [Planet (Fin 1) (Fin 0) (Fin 0) (Fin 0) 0]
   \<and> getPlanetCount (deref newWorld) = 0
   \<and> getPlanetCount
        (deref (callerWrite (getPlanets newWorld) [Planet (Fin 1) (Fin 0) (Fin 0) (Fin 0) 0]
                  newWorld)) = 1"
  by (simp add: newWorld_def getPlanets_def addPlanet_inPlace_def inPlace_def deref_def
      callerWrite_def getPlanetCount_def addPlanet_def PhysicsEngine_def MAX_COUNT_def Let_def)

text \<open>
  Claim C9, amended. \<^verbatim>\<open>getPlanets\<close> returns the reference held in the engine's own field,
  and no operation changes that field. So a reference returned earlier shows, after every
  \<^verbatim>\<open>addPlanet\<close>, \<^verbatim>\<open>update\<close> and \<^verbatim>\<open>removeOutOfBoundsPlanets\<close>, the planets the engine then
  has, and what a caller stores through the reference is the engine's list of planets.
\<close>

theorem getPlanets_returns_live_array:
  "getPlanets w = planetsRef w
   \<and> getPlanets (addPlanet_inPlace w x0 y0 vx0 vy0 c) = getPlanets w
   \<and> getPlanets (update_inPlace w t1 t2) = getPlanets w
   \<and> getPlanets (removeOutOfBoundsPlanets_inPlace w maxX maxY clock) = getPlanets w
   \<and> arrays (addPlanet_inPlace w x0 y0 vx0 vy0 c) (getPlanets w) =
       planets (addPlanet (deref w) x0 y0 vx0 vy0 c)
   \<and> arrays (update_inPlace w t1 t2) (getPlanets w) = planets (fst (update (deref w) t1 t2))
   \<and> arrays (removeOutOfBoundsPlanets_inPlace w maxX maxY clock) (getPlanets w) =
       planets (removeOutOfBoundsPlanets (deref w) maxX maxY clock)
   \<and> planets (deref (addPlanet_inPlace w x0 y0 vx0 vy0 c)) =
       arrays (addPlanet_inPlace w x0 y0 vx0 vy0 c) (getPlanets w)
   \<and> planets (deref (callerWrite (getPlanets w) ps w)) = ps"
  by (simp add: getPlanets_def addPlanet_inPlace_def update_inPlace_def
      removeOutOfBoundsPlanets_inPlace_def inPlace_def deref_def callerWrite_def Let_def)

end
